theory Spec2Isabelle
  imports Main
begin

section \<open>Tuple samples storage (optimizer/stats/tuple\_samples\_storage.cpp)\<close>

text \<open>
  A shallow embedding of \<^verbatim>\<open>TupleSamplesStorage\<close>, the component of the optimizer that keeps
  a row sample of every user table in a hidden database. The member functions of the
  class are translated one by one. The transaction manager, the catalog, the tuple
  sampler and the insert and scan executors are collaborators whose code is not part of
  the file: they enter the model as a record of functions over an arbitrary state, so
  that what is proved of a member function holds whatever the collaborators answer.
\<close>

subsection \<open>Identifiers, names and result codes\<close>

text \<open>\<^verbatim>\<open>oid_t\<close> is an unsigned integer type; its declaration is not in the file, and no
  arithmetic is done on it here, so it is a natural number.\<close>

type_synonym oid_t = nat

datatype ResultType = SUCCESS | FAILURE

text \<open>Modelled from the spec: the macro \<^verbatim>\<open>SAMPLES_DB_NAME\<close> is declared in the header, which
  is not part of the source. The constructor's comment calls the database \<^verbatim>\<open>samples_db\<close>.\<close>

definition SAMPLES_DB_NAME :: string where
  "SAMPLES_DB_NAME = ''samples_db''"

text \<open>The decimal digit for a value below ten.\<close>

definition digit_char :: "nat \<Rightarrow> char" where
  "digit_char d = ''0123456789'' ! d"

text \<open>Modelled from the spec: \<^verbatim>\<open>std::to_string\<close> on an unsigned integer, the textual
  (decimal, no sign, no leading zero) form of an identifier.\<close>

function to_string :: "nat \<Rightarrow> string" where
  "to_string n =
     (if n < 10 then [digit_char n] else to_string (n div 10) @ [digit_char (n mod 10)])"
  by pat_completeness auto
termination
  by (relation "measure (\<lambda>n. n)") auto

declare to_string.simps [simp del]

text \<open>Modelled from the spec: \<^verbatim>\<open>GenerateSamplesTableName\<close> is defined in the header, which is
  not part of the source. The spec has it concatenate the textual forms of the two
  identifiers with a separator that is not a digit, and the comment of
  \<^verbatim>\<open>AddSamplesTable\<close> says that the name is generated by concatenating
  \<^verbatim>\<open>db_id\<close> and \<^verbatim>\<open>table_id\<close> with \<^verbatim>\<open>_\<close>.\<close>

definition GenerateSamplesTableName :: "oid_t \<Rightarrow> oid_t \<Rightarrow> string" where
  "GenerateSamplesTableName db_id table_id = to_string db_id @ ''_'' @ to_string table_id"

text \<open>Reading a digit string back, used to show that \<open>to_string\<close> loses nothing.\<close>

definition digit_val :: "char \<Rightarrow> nat" where
  "digit_val c = of_char c - 48"

definition of_digits :: "string \<Rightarrow> nat" where
  "of_digits cs = foldl (\<lambda>acc c. 10 * acc + digit_val c) 0 cs"

definition is_digit :: "char \<Rightarrow> bool" where
  "is_digit c = (c \<in> set ''0123456789'')"

subsection \<open>Data the storage handles\<close>

text \<open>A \<^verbatim>\<open>concurrency::Transaction *\<close> is a pointer: \<open>None\<close> is \<^verbatim>\<open>nullptr\<close>, \<open>Some t\<close>
  points to the transaction \<open>t\<close>.\<close>

type_synonym Transaction = nat
type_synonym Transaction_ptr = "Transaction option"

text \<open>A schema is its list of columns; \<^verbatim>\<open>CopySchema\<close> makes a structural copy.\<close>

type_synonym Schema = "string list"

definition CopySchema :: "Schema \<Rightarrow> Schema" where
  "CopySchema schema = schema"

definition GetColumnCount :: "Schema \<Rightarrow> nat" where
  "GetColumnCount schema = length schema"

text \<open>What the file reads of a \<^verbatim>\<open>storage::DataTable\<close>: the identifier of its database, its own
  identifier, its name and its schema.\<close>

record DataTable =
  GetDatabaseOid :: oid_t
  GetOid :: oid_t
  GetName :: string
  GetSchema :: Schema

type_synonym 'v Tuple = "'v list"

text \<open>What the file reads of an \<^verbatim>\<open>executor::LogicalTile\<close>, the result batch of one step of
  a scan: the number of its tuples and the value at a tuple and a column position.\<close>

record 'v LogicalTile =
  GetTupleCount :: nat
  GetValue :: "nat \<Rightarrow> nat \<Rightarrow> 'v"

text \<open>The object behind \<^verbatim>\<open>GetInstance\<close>: its only member, \<^verbatim>\<open>pool_\<close>, is the pool of
  transient values. The constructor allocates the pool with \<^verbatim>\<open>new\<close>; a pool is told from
  another by its place in the order of the process's allocations, so two constructions
  give two different objects.\<close>

datatype EphemeralPool = EphemeralPool nat

datatype TupleSamplesStorage = TupleSamplesStorage (pool: EphemeralPool)

text \<open>Dereferencing a null pointer ends the run: it is the one fault the file can raise
  by itself.\<close>

datatype fault = NullPointerDereference

subsection \<open>The collaborators\<close>

text \<open>
  Each call that leaves the file is recorded, with its arguments and with what it
  answered, so that the order of the calls and the transaction each one runs under can be
  stated.
\<close>

datatype 'v call =
    Call_BeginTransaction Transaction_ptr
  | Call_CommitTransaction Transaction_ptr
  | Call_CreateDatabase string Transaction_ptr
  | Call_CreateTable string string Schema Transaction_ptr bool
  | Call_GetTableWithName string string Transaction_ptr "DataTable option"
  | Call_DropTable string string Transaction_ptr ResultType
  | Call_AcquireSampleTuples DataTable nat "'v Tuple list"
  | Call_InsertExecutor "DataTable option" "'v Tuple" Transaction bool
  | Call_SeqScanExecutor "DataTable option" "oid_t list" Transaction nat

text \<open>
  Modelled from the spec: the transaction manager, the catalog, the tuple sampler and the
  two executors are not part of the source. The spec gives their interfaces:
  \<^verbatim>\<open>BeginTransaction() -> txn\<close>, \<^verbatim>\<open>CommitTransaction(txn)\<close>, \<^verbatim>\<open>CreateDatabase(name, txn)\<close>,
  \<^verbatim>\<open>CreateTable(db_name, table_name, schema, txn, is_system_catalog_flag)\<close>,
  \<^verbatim>\<open>GetTableWithName(db_name, table_name, txn) -> table_handle_or_null\<close>,
  \<^verbatim>\<open>DropTable(db_name, table_name, txn) -> result_code\<close>, a sampler yielding the sampled rows
  of a table, an insert run to completion with a success flag, and a scan whose repeated
  steps yield the result batches until it is exhausted. Each is a function on a state
  \<open>'s\<close> of the engine about which nothing is assumed. The scan answers with the finite
  sequence of batches its steps will yield. \<^verbatim>\<open>SAMPLE_COUNT_PER_TABLE\<close> is a macro of the
  header; it is a parameter here.
\<close>

record ('s, 'v) collaborators =
  txn_BeginTransaction :: "'s \<Rightarrow> Transaction_ptr \<times> 's"
  txn_CommitTransaction :: "Transaction_ptr \<Rightarrow> 's \<Rightarrow> 's"
  catalog_CreateDatabase :: "string \<Rightarrow> Transaction_ptr \<Rightarrow> 's \<Rightarrow> 's"
  catalog_CreateTable :: "string \<Rightarrow> string \<Rightarrow> Schema \<Rightarrow> Transaction_ptr \<Rightarrow> bool \<Rightarrow> 's \<Rightarrow> 's"
  catalog_GetTableWithName :: "string \<Rightarrow> string \<Rightarrow> Transaction_ptr \<Rightarrow> 's \<Rightarrow> DataTable option \<times> 's"
  catalog_DropTable :: "string \<Rightarrow> string \<Rightarrow> Transaction_ptr \<Rightarrow> 's \<Rightarrow> ResultType \<times> 's"
  sampler_AcquireSampleTuples :: "DataTable \<Rightarrow> nat \<Rightarrow> 's \<Rightarrow> 'v Tuple list \<times> 's"
  executor_Insert :: "DataTable option \<Rightarrow> 'v Tuple \<Rightarrow> Transaction \<Rightarrow> 's \<Rightarrow> bool \<times> 's"
  executor_SeqScan :: "DataTable option \<Rightarrow> oid_t list \<Rightarrow> Transaction \<Rightarrow> 's \<Rightarrow> 'v LogicalTile list \<times> 's"
  SAMPLE_COUNT_PER_TABLE :: nat

text \<open>The world a member function runs in: the calls made so far and the engine's state.\<close>

record ('s, 'v) world =
  calls :: "'v call list"
  engine :: 's

definition BeginTransaction ::
  "('s, 'v) collaborators \<Rightarrow> ('s, 'v) world \<Rightarrow> Transaction_ptr \<times> ('s, 'v) world" where
  "BeginTransaction K w =
     (case txn_BeginTransaction K (engine w) of
        (txn, s) \<Rightarrow> (txn, \<lparr>calls = calls w @ [Call_BeginTransaction txn], engine = s\<rparr>))"

definition CommitTransaction ::
  "('s, 'v) collaborators \<Rightarrow> Transaction_ptr \<Rightarrow> ('s, 'v) world \<Rightarrow> ('s, 'v) world" where
  "CommitTransaction K txn w =
     \<lparr>calls = calls w @ [Call_CommitTransaction txn],
      engine = txn_CommitTransaction K txn (engine w)\<rparr>"

definition CreateDatabase ::
  "('s, 'v) collaborators \<Rightarrow> string \<Rightarrow> Transaction_ptr \<Rightarrow> ('s, 'v) world \<Rightarrow> ('s, 'v) world" where
  "CreateDatabase K name txn w =
     \<lparr>calls = calls w @ [Call_CreateDatabase name txn],
      engine = catalog_CreateDatabase K name txn (engine w)\<rparr>"

definition CreateTable ::
  "('s, 'v) collaborators \<Rightarrow> string \<Rightarrow> string \<Rightarrow> Schema \<Rightarrow> Transaction_ptr \<Rightarrow> bool \<Rightarrow>
     ('s, 'v) world \<Rightarrow> ('s, 'v) world" where
  "CreateTable K db_name table_name schema txn is_catalog w =
     \<lparr>calls = calls w @ [Call_CreateTable db_name table_name schema txn is_catalog],
      engine = catalog_CreateTable K db_name table_name schema txn is_catalog (engine w)\<rparr>"

definition GetTableWithName ::
  "('s, 'v) collaborators \<Rightarrow> string \<Rightarrow> string \<Rightarrow> Transaction_ptr \<Rightarrow> ('s, 'v) world \<Rightarrow>
     DataTable option \<times> ('s, 'v) world" where
  "GetTableWithName K db_name table_name txn w =
     (case catalog_GetTableWithName K db_name table_name txn (engine w) of
        (table, s) \<Rightarrow>
          (table, \<lparr>calls = calls w @ [Call_GetTableWithName db_name table_name txn table],
                   engine = s\<rparr>))"

definition DropTable ::
  "('s, 'v) collaborators \<Rightarrow> string \<Rightarrow> string \<Rightarrow> Transaction_ptr \<Rightarrow> ('s, 'v) world \<Rightarrow>
     ResultType \<times> ('s, 'v) world" where
  "DropTable K db_name table_name txn w =
     (case catalog_DropTable K db_name table_name txn (engine w) of
        (result, s) \<Rightarrow>
          (result, \<lparr>calls = calls w @ [Call_DropTable db_name table_name txn result],
                    engine = s\<rparr>))"

text \<open>\<^verbatim>\<open>TupleSampler tuple_sampler(data_table); tuple_sampler.AcquireSampleTuples(n)\<close> and the
  later \<^verbatim>\<open>tuple_sampler.GetSampledTuples()\<close>: the sampling is done by the first, the second
  only hands over its result.\<close>

definition AcquireSampleTuples ::
  "('s, 'v) collaborators \<Rightarrow> DataTable \<Rightarrow> nat \<Rightarrow> ('s, 'v) world \<Rightarrow>
     'v Tuple list \<times> ('s, 'v) world" where
  "AcquireSampleTuples K data_table n w =
     (case sampler_AcquireSampleTuples K data_table n (engine w) of
        (sampled_tuples, s) \<Rightarrow>
          (sampled_tuples,
           \<lparr>calls = calls w @ [Call_AcquireSampleTuples data_table n sampled_tuples],
            engine = s\<rparr>))"

text \<open>\<^verbatim>\<open>executor.Init(); executor.Execute()\<close> of an insert executor over a one-row plan.\<close>

definition InsertExecutor_Execute ::
  "('s, 'v) collaborators \<Rightarrow> DataTable option \<Rightarrow> 'v Tuple \<Rightarrow> Transaction \<Rightarrow> ('s, 'v) world \<Rightarrow>
     bool \<times> ('s, 'v) world" where
  "InsertExecutor_Execute K samples_table tuple t w =
     (case executor_Insert K samples_table tuple t (engine w) of
        (status, s) \<Rightarrow>
          (status, \<lparr>calls = calls w @ [Call_InsertExecutor samples_table tuple t status],
                    engine = s\<rparr>))"

text \<open>\<^verbatim>\<open>seq_scan_executor.Init()\<close>: the batches the steps of the scan will yield, in order.\<close>

definition SeqScanExecutor_Init ::
  "('s, 'v) collaborators \<Rightarrow> DataTable option \<Rightarrow> oid_t list \<Rightarrow> Transaction \<Rightarrow> ('s, 'v) world \<Rightarrow>
     'v LogicalTile list \<times> ('s, 'v) world" where
  "SeqScanExecutor_Init K data_table column_offsets t w =
     (case executor_SeqScan K data_table column_offsets t (engine w) of
        (pending, s) \<Rightarrow>
          (pending,
           \<lparr>calls = calls w @ [Call_SeqScanExecutor data_table column_offsets t (length pending)],
            engine = s\<rparr>))"

subsection \<open>The member functions\<close>

text \<open>\<^verbatim>\<open>CreateSamplesDatabase\<close>: create the database of the samples tables in a transaction
  of its own.\<close>

definition CreateSamplesDatabase ::
  "('s, 'v) collaborators \<Rightarrow> ('s, 'v) world \<Rightarrow> ('s, 'v) world" where
  "CreateSamplesDatabase K w =
     (let (txn, w1) = BeginTransaction K w;
          w2 = CreateDatabase K SAMPLES_DB_NAME txn w1
      in CommitTransaction K txn w2)"

text \<open>
  The process, as far as \<^verbatim>\<open>GetInstance\<close> sees it: the storage of the function-local static
  \<^verbatim>\<open>global_tuple_samples_storage\<close>, \<open>None\<close> until it is constructed; the number of objects
  allocated with \<^verbatim>\<open>new\<close> so far; and the world.
\<close>

record ('s, 'v) process =
  global_tuple_samples_storage :: "TupleSamplesStorage option"
  allocated :: nat
  running :: "('s, 'v) world"

text \<open>The constructor: \<^verbatim>\<open>pool_.reset(new type::EphemeralPool()); CreateSamplesDatabase();\<close>\<close>

definition TupleSamplesStorage_ctor ::
  "('s, 'v) collaborators \<Rightarrow> ('s, 'v) process \<Rightarrow> TupleSamplesStorage \<times> ('s, 'v) process" where
  "TupleSamplesStorage_ctor K p =
     (TupleSamplesStorage (EphemeralPool (allocated p)),
      p\<lparr>allocated := Suc (allocated p), running := CreateSamplesDatabase K (running p)\<rparr>)"

text \<open>
  \<^verbatim>\<open>GetInstance\<close> returns the address of the function-local static. The static is
  constructed when control first passes through its declaration and never again. The
  handle returned stands for the object it points to, the one in the static's storage.
\<close>

definition GetInstance ::
  "('s, 'v) collaborators \<Rightarrow> ('s, 'v) process \<Rightarrow> TupleSamplesStorage \<times> ('s, 'v) process" where
  "GetInstance K p =
     (case global_tuple_samples_storage p of
        None \<Rightarrow>
          (let (storage, p1) = TupleSamplesStorage_ctor K p
           in (storage, p1\<lparr>global_tuple_samples_storage := Some storage\<rparr>))
      | Some storage \<Rightarrow> (storage, p))"

text \<open>\<^verbatim>\<open>InsertSampleTuple\<close>: refuse a null transaction, otherwise run a one-row insert.\<close>

definition InsertSampleTuple ::
  "('s, 'v) collaborators \<Rightarrow> DataTable option \<Rightarrow> 'v Tuple \<Rightarrow> Transaction_ptr \<Rightarrow>
     ('s, 'v) world \<Rightarrow> bool \<times> ('s, 'v) world" where
  "InsertSampleTuple K samples_table tuple txn w =
     (case txn of
        None \<Rightarrow> (False, w)
      | Some t \<Rightarrow> InsertExecutor_Execute K samples_table tuple t w)"

text \<open>The loop of \<^verbatim>\<open>AddSamplesTable\<close> over the sampled tuples; the flag that
  \<^verbatim>\<open>InsertSampleTuple\<close> returns is dropped.\<close>

fun insert_sampled_tuples ::
  "('s, 'v) collaborators \<Rightarrow> DataTable option \<Rightarrow> 'v Tuple list \<Rightarrow> Transaction_ptr \<Rightarrow>
     ('s, 'v) world \<Rightarrow> ('s, 'v) world" where
  "insert_sampled_tuples K samples_table [] txn w = w"
| "insert_sampled_tuples K samples_table (tuple # sampled_tuples) txn w =
     insert_sampled_tuples K samples_table sampled_tuples txn
       (snd (InsertSampleTuple K samples_table tuple txn w))"

text \<open>\<^verbatim>\<open>AddSamplesTable\<close>: create the samples table of a data table, with a copy of its
  schema, and insert the sampled tuples, in a transaction of its own.\<close>

definition AddSamplesTable ::
  "('s, 'v) collaborators \<Rightarrow> DataTable \<Rightarrow> 'v Tuple list \<Rightarrow> ('s, 'v) world \<Rightarrow> ('s, 'v) world" where
  "AddSamplesTable K data_table sampled_tuples w =
     (let schema = GetSchema data_table;
          schema_copy = CopySchema schema;
          is_catalog = False;
          samples_table_name =
            GenerateSamplesTableName (GetDatabaseOid data_table) (GetOid data_table);
          (txn, w1) = BeginTransaction K w;
          w2 = CreateTable K SAMPLES_DB_NAME samples_table_name schema_copy txn is_catalog w1;
          (samples_table, w3) = GetTableWithName K SAMPLES_DB_NAME samples_table_name txn w2;
          w4 = insert_sampled_tuples K samples_table sampled_tuples txn w3
      in CommitTransaction K txn w4)"

text \<open>\<^verbatim>\<open>DeleteSamplesTable\<close>: drop the samples table, in the caller's transaction or, when
  the caller passes none, in a single-statement transaction of its own.\<close>

definition DeleteSamplesTable ::
  "('s, 'v) collaborators \<Rightarrow> oid_t \<Rightarrow> oid_t \<Rightarrow> Transaction_ptr \<Rightarrow> ('s, 'v) world \<Rightarrow>
     ResultType \<times> ('s, 'v) world" where
  "DeleteSamplesTable K database_id table_id txn w =
     (let (single_statement_txn, txn1, w1) =
            (case txn of
               None \<Rightarrow> (let (t, w0) = BeginTransaction K w in (True, t, w0))
             | Some _ \<Rightarrow> (False, txn, w));
          samples_table_name = GenerateSamplesTableName database_id table_id;
          (result, w2) = DropTable K SAMPLES_DB_NAME samples_table_name txn1 w1;
          w3 = (if single_statement_txn then CommitTransaction K txn1 w2 else w2)
      in (result, w3))"

text \<open>Modelled from the spec: the default value of the third parameter of
  \<^verbatim>\<open>DeleteSamplesTable\<close> is declared in the header, which is not part of the source.
  \<^verbatim>\<open>CollectSamplesForTable\<close> calls it with two arguments; the spec has a delete without a
  transaction open and commit its own.\<close>

definition DeleteSamplesTable_default_txn :: Transaction_ptr where
  "DeleteSamplesTable_default_txn = None"

text \<open>\<^verbatim>\<open>CollectSamplesForTable\<close>: sample the table, drop its old samples table and add the new
  one. The data table is a live table (a reference, never null).\<close>

definition CollectSamplesForTable ::
  "('s, 'v) collaborators \<Rightarrow> DataTable \<Rightarrow> Transaction_ptr \<Rightarrow> ('s, 'v) world \<Rightarrow>
     ResultType \<times> ('s, 'v) world" where
  "CollectSamplesForTable K data_table txn w =
     (case txn of
        None \<Rightarrow> (FAILURE, w)
      | Some _ \<Rightarrow>
          (let (sampled_tuples, w1) =
                 AcquireSampleTuples K data_table (SAMPLE_COUNT_PER_TABLE K) w;
               (_, w2) = DeleteSamplesTable K (GetDatabaseOid data_table) (GetOid data_table)
                           DeleteSamplesTable_default_txn w1;
               w3 = AddSamplesTable K data_table sampled_tuples w2
           in (SUCCESS, w3)))"

text \<open>The loop \<^verbatim>\<open>while (seq_scan_executor.Execute()) result_tiles->push_back(GetOutput())\<close>:
  each step that yields a batch pushes it at the back of the result.\<close>

fun collect_result_tiles :: "'v LogicalTile list \<Rightarrow> 'v LogicalTile list \<Rightarrow> 'v LogicalTile list" where
  "collect_result_tiles [] result_tiles = result_tiles"
| "collect_result_tiles (output # pending) result_tiles =
     collect_result_tiles pending (result_tiles @ [output])"

text \<open>\<^verbatim>\<open>GetTuplesWithSeqScan\<close>: a null pointer without a transaction, otherwise the batches
  of a sequential scan over the given columns.\<close>

definition GetTuplesWithSeqScan ::
  "('s, 'v) collaborators \<Rightarrow> DataTable option \<Rightarrow> oid_t list \<Rightarrow> Transaction_ptr \<Rightarrow>
     ('s, 'v) world \<Rightarrow> 'v LogicalTile list option \<times> ('s, 'v) world" where
  "GetTuplesWithSeqScan K data_table column_offsets txn w =
     (case txn of
        None \<Rightarrow> (None, w)
      | Some t \<Rightarrow>
          (let (pending, w1) = SeqScanExecutor_Init K data_table column_offsets t w
           in (Some (collect_result_tiles pending []), w1)))"

text \<open>\<^verbatim>\<open>GetTupleSamples\<close>: all columns of all sampled rows. The table pointer that the
  catalog returns is dereferenced at once, for its schema.\<close>

definition GetTupleSamples ::
  "('s, 'v) collaborators \<Rightarrow> oid_t \<Rightarrow> oid_t \<Rightarrow> ('s, 'v) world \<Rightarrow>
     (fault + 'v LogicalTile list option) \<times> ('s, 'v) world" where
  "GetTupleSamples K database_id table_id w =
     (let samples_table_name = GenerateSamplesTableName database_id table_id;
          (txn, w1) = BeginTransaction K w;
          (data_table, w2) = GetTableWithName K SAMPLES_DB_NAME samples_table_name txn w1
      in case data_table of
           None \<Rightarrow> (Inl NullPointerDereference, w2)
         | Some table \<Rightarrow>
             (let col_count = GetColumnCount (GetSchema table);
                  column_ids = [0..<col_count];
                  (result_tiles, w3) = GetTuplesWithSeqScan K data_table column_ids txn w2;
                  w4 = CommitTransaction K txn w3
              in (Inr result_tiles, w4)))"

text \<open>The loop of \<^verbatim>\<open>GetColumnSamples\<close> over the tuples of a tile: push the value at column
  position 0 of each.\<close>

definition push_tile_values :: "'v LogicalTile \<Rightarrow> 'v list \<Rightarrow> 'v list" where
  "push_tile_values tile column_samples =
     foldl (\<lambda>samples tuple_id. samples @ [GetValue tile tuple_id 0]) column_samples
       [0..<GetTupleCount tile]"

text \<open>\<^verbatim>\<open>GetColumnSamples\<close>: the values of one column, pushed at the back of
  \<^verbatim>\<open>column_samples\<close>; the result is the vector after the call. \<^verbatim>\<open>result_tiles->size()\<close>
  dereferences what \<^verbatim>\<open>GetTuplesWithSeqScan\<close> returned.\<close>

definition GetColumnSamples ::
  "('s, 'v) collaborators \<Rightarrow> oid_t \<Rightarrow> oid_t \<Rightarrow> oid_t \<Rightarrow> 'v list \<Rightarrow> ('s, 'v) world \<Rightarrow>
     (fault + 'v list) \<times> ('s, 'v) world" where
  "GetColumnSamples K database_id table_id column_id column_samples w =
     (let samples_table_name = GenerateSamplesTableName database_id table_id;
          (txn, w1) = BeginTransaction K w;
          (data_table, w2) = GetTableWithName K SAMPLES_DB_NAME samples_table_name txn w1;
          column_ids = [column_id];
          (result_tiles, w3) = GetTuplesWithSeqScan K data_table column_ids txn w2;
          w4 = CommitTransaction K txn w3
      in case result_tiles of
           None \<Rightarrow> (Inl NullPointerDereference, w4)
         | Some tiles \<Rightarrow>
             (if length tiles \<noteq> 0
              then (let tile = tiles ! 0 in (Inr (push_tile_values tile column_samples), w4))
              else (Inr column_samples, w4)))"

subsection \<open>A reference engine\<close>

text \<open>
  Modelled from the spec: the engine behind the collaborators is not part of the source.
  This one follows the spec's words and no more: a transaction manager handing out fresh
  transactions and keeping the list of those committed; a catalog of databases and of tables found by database name and table
  name, where creating a table that exists or dropping one that does not changes
  nothing, a lookup of a missing table gives a null handle, and a drop gives
  \<open>SUCCESS\<close> if the table existed and was dropped and \<open>FAILURE\<close> otherwise; a sampler that
  keeps at most the given number of rows of a user table; an insert that stores the whole
  row or nothing; and a scan that yields one batch for each non-empty tile group of the
  table, in storage order. Values are integers. It serves to run the member functions on
  concrete inputs.
\<close>

record ref_engine =
  next_txn :: Transaction
  next_oid :: oid_t
  databases :: "string list"
  tables :: "((string \<times> string) \<times> DataTable \<times> int Tuple list list) list"
  user_rows :: "((oid_t \<times> oid_t) \<times> int Tuple list) list"
  tuples_per_tile_group :: nat
  committed :: "Transaction list"

definition ref_BeginTransaction :: "ref_engine \<Rightarrow> Transaction_ptr \<times> ref_engine" where
  "ref_BeginTransaction s = (Some (next_txn s), s\<lparr>next_txn := Suc (next_txn s)\<rparr>)"

definition ref_CommitTransaction :: "Transaction_ptr \<Rightarrow> ref_engine \<Rightarrow> ref_engine" where
  "ref_CommitTransaction txn s =
     (case txn of None \<Rightarrow> s | Some t \<Rightarrow> s\<lparr>committed := committed s @ [t]\<rparr>)"

definition ref_CreateDatabase :: "string \<Rightarrow> Transaction_ptr \<Rightarrow> ref_engine \<Rightarrow> ref_engine" where
  "ref_CreateDatabase name txn s =
     (if name \<in> set (databases s) then s else s\<lparr>databases := databases s @ [name]\<rparr>)"

definition ref_CreateTable ::
  "string \<Rightarrow> string \<Rightarrow> Schema \<Rightarrow> Transaction_ptr \<Rightarrow> bool \<Rightarrow> ref_engine \<Rightarrow> ref_engine" where
  "ref_CreateTable db_name table_name schema txn is_catalog s =
     (if db_name \<in> set (databases s) \<and> map_of (tables s) (db_name, table_name) = None
      then s\<lparr>tables := tables s @
                [((db_name, table_name),
                  \<lparr>GetDatabaseOid = length (takeWhile (\<lambda>d. d \<noteq> db_name) (databases s)),
                   GetOid = next_oid s, GetName = table_name, GetSchema = schema\<rparr>,
                  [])],
              next_oid := Suc (next_oid s)\<rparr>
      else s)"

definition ref_GetTableWithName ::
  "string \<Rightarrow> string \<Rightarrow> Transaction_ptr \<Rightarrow> ref_engine \<Rightarrow> DataTable option \<times> ref_engine" where
  "ref_GetTableWithName db_name table_name txn s =
     (map_option fst (map_of (tables s) (db_name, table_name)), s)"

definition ref_DropTable ::
  "string \<Rightarrow> string \<Rightarrow> Transaction_ptr \<Rightarrow> ref_engine \<Rightarrow> ResultType \<times> ref_engine" where
  "ref_DropTable db_name table_name txn s =
     (case map_of (tables s) (db_name, table_name) of
        None \<Rightarrow> (FAILURE, s)
      | Some _ \<Rightarrow>
          (SUCCESS, s\<lparr>tables := filter (\<lambda>e. fst e \<noteq> (db_name, table_name)) (tables s)\<rparr>))"

definition ref_AcquireSampleTuples ::
  "DataTable \<Rightarrow> nat \<Rightarrow> ref_engine \<Rightarrow> int Tuple list \<times> ref_engine" where
  "ref_AcquireSampleTuples data_table n s =
     (take n (case map_of (user_rows s) (GetDatabaseOid data_table, GetOid data_table) of
                None \<Rightarrow> []
              | Some rows \<Rightarrow> rows),
      s)"

text \<open>A row goes to the last tile group, or to a new one when that is full.\<close>

definition store_row :: "nat \<Rightarrow> int Tuple \<Rightarrow> int Tuple list list \<Rightarrow> int Tuple list list" where
  "store_row capacity row groups =
     (if groups = [] \<or> capacity \<le> length (last groups) then groups @ [[row]]
      else butlast groups @ [last groups @ [row]])"

definition ref_Insert ::
  "DataTable option \<Rightarrow> int Tuple \<Rightarrow> Transaction \<Rightarrow> ref_engine \<Rightarrow> bool \<times> ref_engine" where
  "ref_Insert target row t s =
     (case target of
        None \<Rightarrow> (False, s)
      | Some table \<Rightarrow>
          (if table \<in> set (map (\<lambda>e. fst (snd e)) (tables s)) \<and>
              length row = length (GetSchema table)
           then (True,
                 s\<lparr>tables :=
                     map (\<lambda>e. if fst (snd e) = table
                               then (fst e, table,
                                     store_row (tuples_per_tile_group s) row (snd (snd e)))
                               else e)
                       (tables s)\<rparr>)
           else (False, s)))"

definition tile_of :: "oid_t list \<Rightarrow> int Tuple list \<Rightarrow> int LogicalTile" where
  "tile_of column_ids rows =
     \<lparr>GetTupleCount = length rows,
      GetValue = (\<lambda>tuple_id column. rows ! tuple_id ! (column_ids ! column))\<rparr>"

text \<open>The tile groups of the table behind a handle; none for a null or unknown handle.\<close>

definition tile_groups :: "ref_engine \<Rightarrow> DataTable option \<Rightarrow> int Tuple list list" where
  "tile_groups s target =
     (case target of
        None \<Rightarrow> []
      | Some table \<Rightarrow>
          (case find (\<lambda>e. fst (snd e) = table) (tables s) of
             None \<Rightarrow> []
           | Some e \<Rightarrow> snd (snd e)))"

definition stored_rows :: "ref_engine \<Rightarrow> DataTable option \<Rightarrow> int Tuple list" where
  "stored_rows s target = concat (tile_groups s target)"

definition ref_SeqScan ::
  "DataTable option \<Rightarrow> oid_t list \<Rightarrow> Transaction \<Rightarrow> ref_engine \<Rightarrow>
     int LogicalTile list \<times> ref_engine" where
  "ref_SeqScan target column_ids t s =
     (map (tile_of column_ids) (filter (\<lambda>g. g \<noteq> []) (tile_groups s target)), s)"

definition ref_collaborators :: "nat \<Rightarrow> (ref_engine, int) collaborators" where
  "ref_collaborators sample_count =
     \<lparr>txn_BeginTransaction = ref_BeginTransaction,
      txn_CommitTransaction = ref_CommitTransaction,
      catalog_CreateDatabase = ref_CreateDatabase,
      catalog_CreateTable = ref_CreateTable,
      catalog_GetTableWithName = ref_GetTableWithName,
      catalog_DropTable = ref_DropTable,
      sampler_AcquireSampleTuples = ref_AcquireSampleTuples,
      executor_Insert = ref_Insert,
      executor_SeqScan = ref_SeqScan,
      SAMPLE_COUNT_PER_TABLE = sample_count\<rparr>"

text \<open>An engine just started: no database, no table, and a user table with identifiers
  (1, 2), one integer column and five rows.\<close>

definition user_table :: DataTable where
  "user_table = \<lparr>GetDatabaseOid = 1, GetOid = 2, GetName = ''t'', GetSchema = [''a'']\<rparr>"

definition fresh_engine :: ref_engine where
  "fresh_engine =
     \<lparr>next_txn = 0, next_oid = 0, databases = [], tables = [],
      user_rows = [((1, 2), [[10], [20], [30], [40], [50]])],
      tuples_per_tile_group = 2, committed = []\<rparr>"

definition fresh_world :: "(ref_engine, int) world" where
  "fresh_world = \<lparr>calls = [], engine = fresh_engine\<rparr>"

subsection \<open>Observations on a run\<close>

text \<open>The insert calls of the loop of \<^verbatim>\<open>AddSamplesTable\<close>, given the flags the executor
  returned: none under a null transaction, one for each sampled tuple otherwise.\<close>

definition insert_calls ::
  "DataTable option \<Rightarrow> 'v Tuple list \<Rightarrow> Transaction_ptr \<Rightarrow> bool list \<Rightarrow> 'v call list" where
  "insert_calls samples_table sampled_tuples txn statuses =
     (case txn of
        None \<Rightarrow> []
      | Some t \<Rightarrow>
          map (\<lambda>(tuple, status). Call_InsertExecutor samples_table tuple t status)
            (zip sampled_tuples statuses))"

text \<open>The flags the insert executor answers when it is run on the sampled tuples one
  after another under a transaction, each run on the engine the one before left; under a
  null transaction nothing is run and every flag is false.\<close>

fun insert_flags ::
  "('s, 'v) collaborators \<Rightarrow> DataTable option \<Rightarrow> 'v Tuple list \<Rightarrow> Transaction_ptr \<Rightarrow> 's \<Rightarrow>
     bool list" where
  "insert_flags K samples_table [] txn s = []"
| "insert_flags K samples_table (tuple # sampled_tuples) None s =
     False # insert_flags K samples_table sampled_tuples None s"
| "insert_flags K samples_table (tuple # sampled_tuples) (Some t) s =
     fst (executor_Insert K samples_table tuple t s) #
     insert_flags K samples_table sampled_tuples (Some t)
       (snd (executor_Insert K samples_table tuple t s))"

text \<open>The engine after these runs; under a null transaction it is the engine before.\<close>

fun insert_engine ::
  "('s, 'v) collaborators \<Rightarrow> DataTable option \<Rightarrow> 'v Tuple list \<Rightarrow> Transaction_ptr \<Rightarrow> 's \<Rightarrow> 's" where
  "insert_engine K samples_table [] txn s = s"
| "insert_engine K samples_table (tuple # sampled_tuples) None s =
     insert_engine K samples_table sampled_tuples None s"
| "insert_engine K samples_table (tuple # sampled_tuples) (Some t) s =
     insert_engine K samples_table sampled_tuples (Some t)
       (snd (executor_Insert K samples_table tuple t s))"

text \<open>\<^verbatim>\<open>GetInstance\<close> called a number of times in a row: the handles returned, in
  order, and the process afterwards.\<close>

fun GetInstance_times ::
  "('s, 'v) collaborators \<Rightarrow> nat \<Rightarrow> ('s, 'v) process \<Rightarrow>
     TupleSamplesStorage list \<times> ('s, 'v) process" where
  "GetInstance_times K 0 p = ([], p)"
| "GetInstance_times K (Suc n) p =
     (let (handle, p1) = GetInstance K p;
          (handles, p2) = GetInstance_times K n p1
      in (handle # handles, p2))"

text \<open>The result batches the scan inside \<^verbatim>\<open>GetColumnSamples\<close> produces: what
  \<^verbatim>\<open>GetTuplesWithSeqScan\<close> returns to it (\<open>None\<close> is the null pointer).\<close>

definition scanned_batches ::
  "('s, 'v) collaborators \<Rightarrow> oid_t \<Rightarrow> oid_t \<Rightarrow> oid_t \<Rightarrow> ('s, 'v) world \<Rightarrow>
     'v LogicalTile list option" where
  "scanned_batches K database_id table_id column_id w =
     (let (txn, w1) = BeginTransaction K w;
          (data_table, w2) =
            GetTableWithName K SAMPLES_DB_NAME
              (GenerateSamplesTableName database_id table_id) txn w1
      in fst (GetTuplesWithSeqScan K data_table [column_id] txn w2))"

text \<open>The spec's single-column read: the value at column position 0 of every row of every
  produced batch, batch after batch, each batch row after row.\<close>

definition column_values_of_batches :: "'v LogicalTile list \<Rightarrow> 'v list" where
  "column_values_of_batches tiles =
     concat (map (\<lambda>tile. map (\<lambda>tuple_id. GetValue tile tuple_id 0) [0..<GetTupleCount tile])
               tiles)"

text \<open>\<^verbatim>\<open>GetColumnSamples\<close> as the spec words it: the accumulator followed by the column's
  values of all produced batches.\<close>

definition GetColumnSamples_spec ::
  "('s, 'v) collaborators \<Rightarrow> oid_t \<Rightarrow> oid_t \<Rightarrow> oid_t \<Rightarrow> 'v list \<Rightarrow> ('s, 'v) world \<Rightarrow>
     (fault + 'v list)" where
  "GetColumnSamples_spec K database_id table_id column_id column_samples w =
     (case scanned_batches K database_id table_id column_id w of
        None \<Rightarrow> Inl NullPointerDereference
      | Some tiles \<Rightarrow> Inr (column_samples @ column_values_of_batches tiles))"

text \<open>The transactions a call begins, commits, and runs a deletion, a table creation or
  an insertion under.\<close>

fun begun_by :: "'v call \<Rightarrow> Transaction_ptr list" where
  "begun_by (Call_BeginTransaction txn) = [txn]"
| "begun_by _ = []"

fun committed_by :: "'v call \<Rightarrow> Transaction_ptr list" where
  "committed_by (Call_CommitTransaction txn) = [txn]"
| "committed_by _ = []"

fun runs_under :: "'v call \<Rightarrow> Transaction_ptr list" where
  "runs_under (Call_DropTable db_name table_name txn result) = [txn]"
| "runs_under (Call_CreateTable db_name table_name schema txn is_catalog) = [txn]"
| "runs_under (Call_InsertExecutor samples_table tuple t status) = [Some t]"
| "runs_under _ = []"

text \<open>The spec's reading of a refresh: the calls begin exactly one transaction, commit
  exactly that one, and every deletion, creation and insertion runs under it.\<close>

definition under_one_transaction :: "'v call list \<Rightarrow> bool" where
  "under_one_transaction cs =
     (case concat (map begun_by cs) of
        [txn] \<Rightarrow> concat (map committed_by cs) = [txn] \<and>
                 list_all (\<lambda>u. u = txn) (concat (map runs_under cs))
      | _ \<Rightarrow> False)"

text \<open>Worlds on the reference engine: the samples database exists and nothing was called
  yet; then the user table was refreshed with at most three sampled rows; then its
  samples table was deleted. The last is a refresh that sampled no row.\<close>

definition ready_world :: "(ref_engine, int) world" where
  "ready_world = \<lparr>calls = [], engine = fresh_engine\<lparr>databases := [SAMPLES_DB_NAME]\<rparr>\<rparr>"

definition sampled_world :: "(ref_engine, int) world" where
  "sampled_world = snd (CollectSamplesForTable (ref_collaborators 3) user_table (Some 99) ready_world)"

definition after_delete_world :: "(ref_engine, int) world" where
  "after_delete_world = snd (DeleteSamplesTable (ref_collaborators 3) 1 2 None sampled_world)"

definition empty_sampled_world :: "(ref_engine, int) world" where
  "empty_sampled_world =
     snd (CollectSamplesForTable (ref_collaborators 0) user_table (Some 99) ready_world)"

text \<open>The handle of the samples table of the user table, as the reference catalog made it.\<close>

text \<open>A process just started on the fresh engine: the static is not constructed and
  nothing was allocated.\<close>

definition fresh_process :: "(ref_engine, int) process" where
  "fresh_process =
     \<lparr>global_tuple_samples_storage = None, allocated = 0, running = fresh_world\<rparr>"

definition samples_table_1_2 :: DataTable where
  "samples_table_1_2 =
     \<lparr>GetDatabaseOid = 0, GetOid = 0, GetName = ''1_2'', GetSchema = [''a'']\<rparr>"

section \<open>Properties\<close>

subsection \<open>The naming scheme\<close>

lemma below_ten_cases:
  fixes d :: nat
  assumes "d < 10"
  shows "d = 0 \<or> d = 1 \<or> d = 2 \<or> d = 3 \<or> d = 4 \<or> d = 5 \<or> d = 6 \<or> d = 7 \<or> d = 8 \<or> d = 9"
  using assms by arith

lemma digit_val_digit_char: "d < 10 \<Longrightarrow> digit_val (digit_char d) = d"
  using below_ten_cases [of d] by (auto simp: digit_val_def digit_char_def)

lemma is_digit_digit_char: "d < 10 \<Longrightarrow> is_digit (digit_char d)"
  using below_ten_cases [of d] by (auto simp: is_digit_def digit_char_def)

lemma of_digits_snoc: "of_digits (cs @ [c]) = 10 * of_digits cs + digit_val c"
  by (simp add: of_digits_def)

lemma of_digits_to_string: "of_digits (to_string n) = n"
proof (induction n rule: to_string.induct)
  case (1 n)
  show ?case
  proof (cases "n < 10")
    case True
    then show ?thesis
      by (subst to_string.simps) (simp add: of_digits_def digit_val_digit_char)
  next
    case False
    have "of_digits (to_string n) = 10 * of_digits (to_string (n div 10)) + digit_val (digit_char (n mod 10))"
      using False by (subst to_string.simps) (simp add: of_digits_snoc)
    also have "\<dots> = 10 * (n div 10) + n mod 10"
      using False "1.IH" by (simp add: digit_val_digit_char)
    finally show ?thesis by simp
  qed
qed

lemma to_string_inj: "to_string a = to_string b \<Longrightarrow> a = b"
  by (metis of_digits_to_string)

lemma to_string_digits: "\<forall>c \<in> set (to_string n). is_digit c"
proof (induction n rule: to_string.induct)
  case (1 n)
  show ?case
  proof (cases "n < 10")
    case True
    then show ?thesis
      by (subst to_string.simps) (simp add: is_digit_digit_char)
  next
    case False
    then show ?thesis
      using "1.IH" by (subst to_string.simps) (simp add: is_digit_digit_char)
  qed
qed

lemma separator_not_digit: "\<not> is_digit CHR ''_''"
  by (simp add: is_digit_def)

lemma takeWhile_name: "takeWhile is_digit (GenerateSamplesTableName a b) = to_string a"
  using to_string_digits [of a]
  by (simp add: GenerateSamplesTableName_def takeWhile_append2 separator_not_digit)

lemma dropWhile_name:
  "dropWhile is_digit (GenerateSamplesTableName a b) = CHR ''_'' # to_string b"
  using to_string_digits [of a]
  by (simp add: GenerateSamplesTableName_def dropWhile_append2 separator_not_digit)

text \<open>
  Claim C10. The sample-table naming function is deterministic and injective: the name is
  a function of the two identifiers alone, and two pairs of identifiers receive the same
  name only when they are the same pair.
\<close>

theorem GenerateSamplesTableName_injective:
  "(GenerateSamplesTableName a b = GenerateSamplesTableName c d) = (a = c \<and> b = d)"
proof
  assume eq: "GenerateSamplesTableName a b = GenerateSamplesTableName c d"
  have "to_string a = to_string c"
    using eq takeWhile_name [of a b] takeWhile_name [of c d] by simp
  moreover have "to_string b = to_string d"
    using eq dropWhile_name [of a b] dropWhile_name [of c d] by simp
  ultimately show "a = c \<and> b = d"
    by (simp add: to_string_inj)
next
  assume "a = c \<and> b = d"
  then show "GenerateSamplesTableName a b = GenerateSamplesTableName c d"
    by simp
qed

subsection \<open>The calls a member function makes\<close>

lemmas call_defs = BeginTransaction_def CommitTransaction_def CreateDatabase_def
  CreateTable_def GetTableWithName_def DropTable_def AcquireSampleTuples_def
  InsertExecutor_Execute_def SeqScanExecutor_Init_def

lemma foldl_snoc_map: "foldl (\<lambda>acc x. acc @ [f x]) acc xs = acc @ map f xs"
  by (induction xs arbitrary: acc) simp_all

lemma push_tile_values_eq:
  "push_tile_values tile column_samples =
     column_samples @ map (\<lambda>tuple_id. GetValue tile tuple_id 0) [0..<GetTupleCount tile]"
  unfolding push_tile_values_def by (rule foldl_snoc_map)

lemma collect_result_tiles_eq: "collect_result_tiles pending result_tiles = result_tiles @ pending"
  by (induction pending arbitrary: result_tiles) simp_all

lemma insert_sampled_tuples_eq:
  "insert_sampled_tuples K st tuples txn w =
     \<lparr>calls = calls w @ insert_calls st tuples txn (insert_flags K st tuples txn (engine w)),
      engine = insert_engine K st tuples txn (engine w)\<rparr>"
proof (induction tuples arbitrary: w)
  case Nil
  show ?case by (simp add: insert_calls_def split: option.splits)
next
  case (Cons tuple tuples)
  show ?case
  proof (cases txn)
    case None
    then show ?thesis
      using Cons.IH [of w] by (simp add: InsertSampleTuple_def insert_calls_def)
  next
    case (Some t)
    then show ?thesis
      using Cons.IH [of "snd (InsertExecutor_Execute K st tuple t w)"]
      by (simp add: InsertSampleTuple_def InsertExecutor_Execute_def case_prod_beta
          insert_calls_def)
  qed
qed

lemma CreateSamplesDatabase_eq:
  "CreateSamplesDatabase K w =
     \<lparr>calls = calls w @
        [Call_BeginTransaction (fst (txn_BeginTransaction K (engine w))),
         Call_CreateDatabase SAMPLES_DB_NAME (fst (txn_BeginTransaction K (engine w))),
         Call_CommitTransaction (fst (txn_BeginTransaction K (engine w)))],
      engine =
        txn_CommitTransaction K (fst (txn_BeginTransaction K (engine w)))
          (catalog_CreateDatabase K SAMPLES_DB_NAME (fst (txn_BeginTransaction K (engine w)))
             (snd (txn_BeginTransaction K (engine w))))\<rparr>"
  by (simp add: CreateSamplesDatabase_def call_defs Let_def case_prod_beta)

lemma DeleteSamplesTable_own_eq:
  "DeleteSamplesTable K d t None w =
     (fst (catalog_DropTable K SAMPLES_DB_NAME (GenerateSamplesTableName d t)
             (fst (txn_BeginTransaction K (engine w))) (snd (txn_BeginTransaction K (engine w)))),
      \<lparr>calls = calls w @
         [Call_BeginTransaction (fst (txn_BeginTransaction K (engine w))),
          Call_DropTable SAMPLES_DB_NAME (GenerateSamplesTableName d t)
            (fst (txn_BeginTransaction K (engine w)))
            (fst (catalog_DropTable K SAMPLES_DB_NAME (GenerateSamplesTableName d t)
                    (fst (txn_BeginTransaction K (engine w)))
                    (snd (txn_BeginTransaction K (engine w))))),
          Call_CommitTransaction (fst (txn_BeginTransaction K (engine w)))],
       engine =
         txn_CommitTransaction K (fst (txn_BeginTransaction K (engine w)))
           (snd (catalog_DropTable K SAMPLES_DB_NAME (GenerateSamplesTableName d t)
                   (fst (txn_BeginTransaction K (engine w)))
                   (snd (txn_BeginTransaction K (engine w)))))\<rparr>)"
  by (simp add: DeleteSamplesTable_def call_defs Let_def case_prod_beta)

lemma DeleteSamplesTable_joined_eq:
  "DeleteSamplesTable K d t (Some x) w =
     (fst (catalog_DropTable K SAMPLES_DB_NAME (GenerateSamplesTableName d t) (Some x) (engine w)),
      \<lparr>calls = calls w @
         [Call_DropTable SAMPLES_DB_NAME (GenerateSamplesTableName d t) (Some x)
            (fst (catalog_DropTable K SAMPLES_DB_NAME (GenerateSamplesTableName d t) (Some x)
                    (engine w)))],
       engine =
         snd (catalog_DropTable K SAMPLES_DB_NAME (GenerateSamplesTableName d t) (Some x)
                (engine w))\<rparr>)"
  by (simp add: DeleteSamplesTable_def call_defs Let_def case_prod_beta)

lemma AddSamplesTable_eq:
  "AddSamplesTable K data_table sampled w =
     (let name = GenerateSamplesTableName (GetDatabaseOid data_table) (GetOid data_table);
          begun = txn_BeginTransaction K (engine w);
          txn = fst begun;
          s2 = catalog_CreateTable K SAMPLES_DB_NAME name (CopySchema (GetSchema data_table)) txn
                 False (snd begun);
          found = catalog_GetTableWithName K SAMPLES_DB_NAME name txn s2
      in \<lparr>calls = calls w @
            [Call_BeginTransaction txn,
             Call_CreateTable SAMPLES_DB_NAME name (CopySchema (GetSchema data_table)) txn False,
             Call_GetTableWithName SAMPLES_DB_NAME name txn (fst found)] @
            insert_calls (fst found) sampled txn
              (insert_flags K (fst found) sampled txn (snd found)) @
            [Call_CommitTransaction txn],
          engine =
            txn_CommitTransaction K txn (insert_engine K (fst found) sampled txn (snd found))\<rparr>)"
  by (simp add: AddSamplesTable_def call_defs Let_def case_prod_beta insert_sampled_tuples_eq)

subsection \<open>Refreshing the samples of a table\<close>

text \<open>
  Claim C2, as the source has it. Given a non-null transaction, \<^verbatim>\<open>CollectSamplesForTable\<close>
  does the following and nothing else, in this order, each step on the engine the step
  before left. The sampler samples the table. The transaction manager begins a first
  transaction, the catalog drops the samples table of the table's identity under it, and it
  is committed. The transaction manager begins a second transaction; under it the catalog
  creates the samples table with a copy of the table's schema and looks it up, and the
  insert executor is run once for every sampled row, in order, on the handle found; then it
  is committed. If the second begin answers a null transaction, no insert is run. The
  result is \<open>SUCCESS\<close>; the answers of the drop, of the creation and of the inserts are
  not looked at, and the caller's transaction is used for nothing.
\<close>

theorem CollectSamplesForTable_two_transactions:
  "CollectSamplesForTable K data_table (Some caller_txn) w =
     (let name = GenerateSamplesTableName (GetDatabaseOid data_table) (GetOid data_table);
          (sampled, s1) =
            sampler_AcquireSampleTuples K data_table (SAMPLE_COUNT_PER_TABLE K) (engine w);
          (txn1, s2) = txn_BeginTransaction K s1;
          (result, s3) = catalog_DropTable K SAMPLES_DB_NAME name txn1 s2;
          s4 = txn_CommitTransaction K txn1 s3;
          (txn2, s5) = txn_BeginTransaction K s4;
          s6 = catalog_CreateTable K SAMPLES_DB_NAME name (CopySchema (GetSchema data_table)) txn2
                 False s5;
          (samples_table, s7) = catalog_GetTableWithName K SAMPLES_DB_NAME name txn2 s6;
          s8 = insert_engine K samples_table sampled txn2 s7
      in (SUCCESS,
          \<lparr>calls = calls w @
             [Call_AcquireSampleTuples data_table (SAMPLE_COUNT_PER_TABLE K) sampled,
              Call_BeginTransaction txn1,
              Call_DropTable SAMPLES_DB_NAME name txn1 result,
              Call_CommitTransaction txn1,
              Call_BeginTransaction txn2,
              Call_CreateTable SAMPLES_DB_NAME name (CopySchema (GetSchema data_table)) txn2 False,
              Call_GetTableWithName SAMPLES_DB_NAME name txn2 samples_table] @
             insert_calls samples_table sampled txn2
               (insert_flags K samples_table sampled txn2 s7) @
             [Call_CommitTransaction txn2],
           engine = txn_CommitTransaction K txn2 s8\<rparr>))"
  by (simp add: CollectSamplesForTable_def AcquireSampleTuples_def
      DeleteSamplesTable_default_txn_def DeleteSamplesTable_own_eq AddSamplesTable_eq
      Let_def case_prod_beta)

text \<open>The world after the first refresh of the user table, written out.\<close>

lemma sampled_world_eq:
  "sampled_world =
     \<lparr>calls =
        [Call_AcquireSampleTuples user_table 3 [[10], [20], [30]],
         Call_BeginTransaction (Some 0),
         Call_DropTable ''samples_db'' ''1_2'' (Some 0) FAILURE,
         Call_CommitTransaction (Some 0),
         Call_BeginTransaction (Some 1),
         Call_CreateTable ''samples_db'' ''1_2'' [''a''] (Some 1) False,
         Call_GetTableWithName ''samples_db'' ''1_2'' (Some 1) (Some samples_table_1_2),
         Call_InsertExecutor (Some samples_table_1_2) [10] 1 True,
         Call_InsertExecutor (Some samples_table_1_2) [20] 1 True,
         Call_InsertExecutor (Some samples_table_1_2) [30] 1 True,
         Call_CommitTransaction (Some 1)],
      engine =
        \<lparr>next_txn = 2, next_oid = 1, databases = [''samples_db''],
         tables = [((''samples_db'', ''1_2''), samples_table_1_2, [[[10], [20]], [[30]]])],
         user_rows = [((1, 2), [[10], [20], [30], [40], [50]])],
         tuples_per_tile_group = 2, committed = [0, 1]\<rparr>\<rparr>"
  by code_simp

text \<open>
  A run of claim C2 on the reference engine, where the samples database exists and the
  user table has no samples table yet. The drop, under transaction 0, answers \<open>FAILURE\<close>,
  which is not looked at, and transaction 0 is committed. Under transaction 1 the samples
  table is created with the copied schema and found, and the three sampled rows are
  inserted; transaction 1 is committed. Afterwards the catalog holds the samples table
  with these rows, and the committed transactions are 0 and 1.
\<close>

theorem CollectSamplesForTable_two_transactions_witness:
  "CollectSamplesForTable (ref_collaborators 3) user_table (Some 99) ready_world =
     (SUCCESS,
      \<lparr>calls =
         [Call_AcquireSampleTuples user_table 3 [[10], [20], [30]],
          Call_BeginTransaction (Some 0),
          Call_DropTable ''samples_db'' ''1_2'' (Some 0) FAILURE,
          Call_CommitTransaction (Some 0),
          Call_BeginTransaction (Some 1),
          Call_CreateTable ''samples_db'' ''1_2'' [''a''] (Some 1) False,
          Call_GetTableWithName ''samples_db'' ''1_2'' (Some 1) (Some samples_table_1_2),
          Call_InsertExecutor (Some samples_table_1_2) [10] 1 True,
          Call_InsertExecutor (Some samples_table_1_2) [20] 1 True,
          Call_InsertExecutor (Some samples_table_1_2) [30] 1 True,
          Call_CommitTransaction (Some 1)],
       engine =
         \<lparr>next_txn = 2, next_oid = 1, databases = [''samples_db''],
          tables = [((''samples_db'', ''1_2''), samples_table_1_2, [[[10], [20]], [[30]]])],
          user_rows = [((1, 2), [[10], [20], [30], [40], [50]])],
          tuples_per_tile_group = 2, committed = [0, 1]\<rparr>\<rparr>)"
proof (rule prod_eqI)
  show "fst (CollectSamplesForTable (ref_collaborators 3) user_table (Some 99) ready_world) =
          fst (SUCCESS,
      \<lparr>calls =
         [Call_AcquireSampleTuples user_table 3 [[10], [20], [30]],
          Call_BeginTransaction (Some 0),
          Call_DropTable ''samples_db'' ''1_2'' (Some 0) FAILURE,
          Call_CommitTransaction (Some 0),
          Call_BeginTransaction (Some 1),
          Call_CreateTable ''samples_db'' ''1_2'' [''a''] (Some 1) False,
          Call_GetTableWithName ''samples_db'' ''1_2'' (Some 1) (Some samples_table_1_2),
          Call_InsertExecutor (Some samples_table_1_2) [10] 1 True,
          Call_InsertExecutor (Some samples_table_1_2) [20] 1 True,
          Call_InsertExecutor (Some samples_table_1_2) [30] 1 True,
          Call_CommitTransaction (Some 1)],
       engine =
         \<lparr>next_txn = 2, next_oid = 1, databases = [''samples_db''],
          tables = [((''samples_db'', ''1_2''), samples_table_1_2, [[[10], [20]], [[30]]])],
          user_rows = [((1, 2), [[10], [20], [30], [40], [50]])],
          tuples_per_tile_group = 2, committed = [0, 1]\<rparr>\<rparr>)"
    using CollectSamplesForTable_two_transactions
      [of "ref_collaborators 3" user_table 99 ready_world]
    by (simp only: Let_def case_prod_beta fst_conv)
next
  show "snd (CollectSamplesForTable (ref_collaborators 3) user_table (Some 99) ready_world) =
          snd (SUCCESS,
      \<lparr>calls =
         [Call_AcquireSampleTuples user_table 3 [[10], [20], [30]],
          Call_BeginTransaction (Some 0),
          Call_DropTable ''samples_db'' ''1_2'' (Some 0) FAILURE,
          Call_CommitTransaction (Some 0),
          Call_BeginTransaction (Some 1),
          Call_CreateTable ''samples_db'' ''1_2'' [''a''] (Some 1) False,
          Call_GetTableWithName ''samples_db'' ''1_2'' (Some 1) (Some samples_table_1_2),
          Call_InsertExecutor (Some samples_table_1_2) [10] 1 True,
          Call_InsertExecutor (Some samples_table_1_2) [20] 1 True,
          Call_InsertExecutor (Some samples_table_1_2) [30] 1 True,
          Call_CommitTransaction (Some 1)],
       engine =
         \<lparr>next_txn = 2, next_oid = 1, databases = [''samples_db''],
          tables = [((''samples_db'', ''1_2''), samples_table_1_2, [[[10], [20]], [[30]]])],
          user_rows = [((1, 2), [[10], [20], [30], [40], [50]])],
          tuples_per_tile_group = 2, committed = [0, 1]\<rparr>\<rparr>)"
    using sampled_world_eq by (simp only: sampled_world_def snd_conv)
qed

text \<open>
  Claim C2, as the spec states it, fails. On the reference engine, with the samples database
  in place, the refresh of the user table begins two transactions: the deletion runs
  under the first and the creation and the insertions under the second.
\<close>

theorem CollectSamplesForTable_not_one_transaction:
  "\<not> under_one_transaction
        (calls (snd (CollectSamplesForTable (ref_collaborators 3) user_table (Some 99)
                       ready_world)))"
proof -
  have "\<not> under_one_transaction (calls sampled_world)"
    unfolding sampled_world_eq by code_simp
  then show ?thesis
    unfolding sampled_world_def .
qed

text \<open>
  Claim C4. For every non-null transaction, \<^verbatim>\<open>CollectSamplesForTable\<close> returns \<open>SUCCESS\<close>,
  whatever the sampler, the catalog and the insert executor answer.
\<close>

theorem CollectSamplesForTable_always_SUCCESS:
  "fst (CollectSamplesForTable K data_table (Some caller_txn) w) = SUCCESS"
  by (simp add: CollectSamplesForTable_def Let_def case_prod_beta)

text \<open>
  A run of claim C4 in which every inner step fails. The engine has no samples database:
  the drop answers \<open>FAILURE\<close>, the table is not created, its lookup gives a null handle and
  each insert answers \<open>False\<close>; the refresh still returns \<open>SUCCESS\<close>.
\<close>

theorem CollectSamplesForTable_always_SUCCESS_witness:
  "fst (CollectSamplesForTable (ref_collaborators 2) user_table (Some 99) fresh_world) = SUCCESS \<and>
   calls (snd (CollectSamplesForTable (ref_collaborators 2) user_table (Some 99) fresh_world)) =
     [Call_AcquireSampleTuples user_table 2 [[10], [20]],
      Call_BeginTransaction (Some 0),
      Call_DropTable ''samples_db'' ''1_2'' (Some 0) FAILURE,
      Call_CommitTransaction (Some 0),
      Call_BeginTransaction (Some 1),
      Call_CreateTable ''samples_db'' ''1_2'' [''a''] (Some 1) False,
      Call_GetTableWithName ''samples_db'' ''1_2'' (Some 1) None,
      Call_InsertExecutor None [10] 1 False,
      Call_InsertExecutor None [20] 1 False,
      Call_CommitTransaction (Some 1)]"
proof -
  have log:
    "calls (snd (CollectSamplesForTable (ref_collaborators 2) user_table (Some 99) fresh_world)) =
       [Call_AcquireSampleTuples user_table 2 [[10], [20]],
        Call_BeginTransaction (Some 0),
        Call_DropTable ''samples_db'' ''1_2'' (Some 0) FAILURE,
        Call_CommitTransaction (Some 0),
        Call_BeginTransaction (Some 1),
        Call_CreateTable ''samples_db'' ''1_2'' [''a''] (Some 1) False,
        Call_GetTableWithName ''samples_db'' ''1_2'' (Some 1) None,
        Call_InsertExecutor None [10] 1 False,
        Call_InsertExecutor None [20] 1 False,
        Call_CommitTransaction (Some 1)]"
    by code_simp
  show ?thesis
    using CollectSamplesForTable_always_SUCCESS [of "ref_collaborators 2" user_table 99 fresh_world]
      log
    by (simp only: simp_thms)
qed

text \<open>
  Claim C8. With a null transaction \<^verbatim>\<open>CollectSamplesForTable\<close> returns \<open>FAILURE\<close> at once: it
  makes no call (no sampling, no deletion, no creation) and leaves the engine as it was.
\<close>

theorem CollectSamplesForTable_null_txn:
  "CollectSamplesForTable K data_table None w = (FAILURE, w)"
  by (simp add: CollectSamplesForTable_def)

subsection \<open>Deleting a samples table\<close>

text \<open>
  Claim C5. \<^verbatim>\<open>DeleteSamplesTable\<close> has two transaction modes. Without a transaction it
  begins one, has the catalog drop the table under it, and commits it: the engine
  afterwards is the engine after that begin, that drop and that commit, and these are
  its three calls. With the caller's transaction it makes one call, the drop under that
  transaction, and the engine afterwards is the engine the drop left: no transaction is
  begun and none is committed. In both modes the result is the answer of the drop.
\<close>

theorem DeleteSamplesTable_transaction_modes:
  "DeleteSamplesTable K database_id table_id None w =
     (let name = GenerateSamplesTableName database_id table_id;
          (txn, s1) = txn_BeginTransaction K (engine w);
          (result, s2) = catalog_DropTable K SAMPLES_DB_NAME name txn s1
      in (result,
          \<lparr>calls = calls w @
             [Call_BeginTransaction txn,
              Call_DropTable SAMPLES_DB_NAME name txn result,
              Call_CommitTransaction txn],
           engine = txn_CommitTransaction K txn s2\<rparr>)) \<and>
   DeleteSamplesTable K database_id table_id (Some caller_txn) w =
     (let name = GenerateSamplesTableName database_id table_id;
          (result, s1) = catalog_DropTable K SAMPLES_DB_NAME name (Some caller_txn) (engine w)
      in (result,
          \<lparr>calls = calls w @ [Call_DropTable SAMPLES_DB_NAME name (Some caller_txn) result],
           engine = s1\<rparr>))"
  by (simp add: DeleteSamplesTable_own_eq DeleteSamplesTable_joined_eq Let_def case_prod_beta)

text \<open>
  A run of claim C5 on the reference engine after a refresh, where transactions 0 and 1
  are committed and the samples table of the user table exists. Without a transaction the
  delete begins transaction 2, drops the table and commits 2. With the caller's
  transaction 99 it drops the table and the committed transactions stay 0 and 1.
\<close>

theorem DeleteSamplesTable_transaction_modes_witness:
  "DeleteSamplesTable (ref_collaborators 3) 1 2 None sampled_world =
     (SUCCESS,
      \<lparr>calls = calls sampled_world @
         [Call_BeginTransaction (Some 2),
          Call_DropTable ''samples_db'' ''1_2'' (Some 2) SUCCESS,
          Call_CommitTransaction (Some 2)],
       engine = (engine sampled_world)\<lparr>next_txn := 3, tables := [], committed := [0, 1, 2]\<rparr>\<rparr>) \<and>
   DeleteSamplesTable (ref_collaborators 3) 1 2 (Some 99) sampled_world =
     (SUCCESS,
      \<lparr>calls = calls sampled_world @
         [Call_DropTable ''samples_db'' ''1_2'' (Some 99) SUCCESS],
       engine = (engine sampled_world)\<lparr>tables := []\<rparr>\<rparr>) \<and>
   committed (engine sampled_world) = [0, 1]"
proof -
  have name: "GenerateSamplesTableName 1 2 = ''1_2''"
    by code_simp
  have db: "SAMPLES_DB_NAME = ''samples_db''"
    by (simp add: SAMPLES_DB_NAME_def)
  have begun:
    "txn_BeginTransaction (ref_collaborators 3) (engine sampled_world) =
       (Some 2, (engine sampled_world)\<lparr>next_txn := 3\<rparr>)"
    unfolding sampled_world_eq by code_simp
  have own_drop:
    "catalog_DropTable (ref_collaborators 3) ''samples_db'' ''1_2'' (Some 2)
       ((engine sampled_world)\<lparr>next_txn := 3\<rparr>) =
       (SUCCESS, (engine sampled_world)\<lparr>next_txn := 3, tables := []\<rparr>)"
    unfolding sampled_world_eq by code_simp
  have own_commit:
    "txn_CommitTransaction (ref_collaborators 3) (Some 2)
       ((engine sampled_world)\<lparr>next_txn := 3, tables := []\<rparr>) =
       (engine sampled_world)\<lparr>next_txn := 3, tables := [], committed := [0, 1, 2]\<rparr>"
    unfolding sampled_world_eq by code_simp
  have joined_drop:
    "catalog_DropTable (ref_collaborators 3) ''samples_db'' ''1_2'' (Some 99)
       (engine sampled_world) =
       (SUCCESS, (engine sampled_world)\<lparr>tables := []\<rparr>)"
    unfolding sampled_world_eq by code_simp
  have before: "committed (engine sampled_world) = [0, 1]"
    unfolding sampled_world_eq by simp
  show ?thesis
    using DeleteSamplesTable_transaction_modes [of "ref_collaborators 3" 1 2 sampled_world 99]
      before
    by (simp only: Let_def name db begun own_drop own_commit joined_drop prod.case simp_thms)
qed

subsection \<open>Bootstrap\<close>

lemma GetInstance_times_constructed:
  "global_tuple_samples_storage p = Some storage \<Longrightarrow>
   GetInstance_times K n p = (replicate n storage, p)"
  by (induction n) (simp_all add: GetInstance_def)

text \<open>
  Claim C6. Bootstrap is idempotent. In a process where the static is not yet
  constructed, calling \<^verbatim>\<open>GetInstance\<close> any number of times, once or more, constructs the
  storage object once: one pool is allocated, one transaction is begun, the catalog
  creates the samples database under it, and it is committed. The engine afterwards is
  the engine after that begin, that creation and that commit, whatever the number of
  calls, and every call returns the same handle, the object of the one construction.
  Before the first call nothing is created.
\<close>

theorem GetInstance_creates_database_once:
  "GetInstance_times K 0
     \<lparr>global_tuple_samples_storage = None, allocated = a, running = w\<rparr> =
     ([], \<lparr>global_tuple_samples_storage = None, allocated = a, running = w\<rparr>) \<and>
   GetInstance_times K (Suc n)
     \<lparr>global_tuple_samples_storage = None, allocated = a, running = w\<rparr> =
     (let (txn, s1) = txn_BeginTransaction K (engine w);
          s2 = catalog_CreateDatabase K SAMPLES_DB_NAME txn s1
      in (replicate (Suc n) (TupleSamplesStorage (EphemeralPool a)),
          \<lparr>global_tuple_samples_storage = Some (TupleSamplesStorage (EphemeralPool a)),
           allocated = Suc a,
           running =
             \<lparr>calls = calls w @
                [Call_BeginTransaction txn,
                 Call_CreateDatabase SAMPLES_DB_NAME txn,
                 Call_CommitTransaction txn],
              engine = txn_CommitTransaction K txn s2\<rparr>\<rparr>))"
  by (simp add: GetInstance_def TupleSamplesStorage_ctor_def GetInstance_times_constructed
      CreateSamplesDatabase_eq Let_def case_prod_beta)

text \<open>
  A run of claim C6 on the reference engine just started: three calls return the same
  handle three times, the catalog holds the samples database once, one transaction was
  begun and committed, and one pool was allocated.
\<close>

theorem GetInstance_creates_database_once_witness:
  "GetInstance_times (ref_collaborators 3) (Suc 2) fresh_process =
     (replicate (Suc 2) (TupleSamplesStorage (EphemeralPool 0)),
      \<lparr>global_tuple_samples_storage = Some (TupleSamplesStorage (EphemeralPool 0)),
       allocated = Suc 0,
       running =
         \<lparr>calls = [Call_BeginTransaction (Some 0),
                   Call_CreateDatabase ''samples_db'' (Some 0),
                   Call_CommitTransaction (Some 0)],
          engine = fresh_engine\<lparr>next_txn := 1, databases := [''samples_db''],
                                 committed := [0]\<rparr>\<rparr>\<rparr>)"
proof -
  have db: "SAMPLES_DB_NAME = ''samples_db''"
    by (simp add: SAMPLES_DB_NAME_def)
  have world_parts: "calls fresh_world = []" "engine fresh_world = fresh_engine"
    by (simp_all add: fresh_world_def)
  have begun:
    "txn_BeginTransaction (ref_collaborators 3) fresh_engine =
       (Some 0, fresh_engine\<lparr>next_txn := 1\<rparr>)"
    by code_simp
  have created:
    "catalog_CreateDatabase (ref_collaborators 3) ''samples_db'' (Some 0)
       (fresh_engine\<lparr>next_txn := 1\<rparr>) =
       fresh_engine\<lparr>next_txn := 1, databases := [''samples_db'']\<rparr>"
    by code_simp
  have finished:
    "txn_CommitTransaction (ref_collaborators 3) (Some 0)
       (fresh_engine\<lparr>next_txn := 1, databases := [''samples_db'']\<rparr>) =
       fresh_engine\<lparr>next_txn := 1, databases := [''samples_db''], committed := [0]\<rparr>"
    by code_simp
  show ?thesis
    using GetInstance_creates_database_once [of "ref_collaborators 3" 0 fresh_world 2]
    by (simp only: fresh_process_def world_parts Let_def db begun created finished prod.case
        append_Nil)
qed

subsection \<open>Inserting a sampled row\<close>

lemma find_map_handle:
  assumes "\<And>e. fst (snd (f e)) = fst (snd e)"
  shows "find (\<lambda>e. fst (snd e) = table) (map f es) =
           map_option f (find (\<lambda>e. fst (snd e) = table) es)"
  using assms by (induction es) simp_all

lemma find_handle_Some:
  "table \<in> set (map (\<lambda>e. fst (snd e)) es) \<Longrightarrow>
   \<exists>e. find (\<lambda>e. fst (snd e) = table) es = Some e \<and> fst (snd e) = table"
  by (induction es) auto

lemma concat_store_row: "concat (store_row capacity row groups) = concat groups @ [row]"
proof (cases "groups = [] \<or> capacity \<le> length (last groups)")
  case True
  then show ?thesis by (auto simp: store_row_def)
next
  case False
  then have "groups = butlast groups @ [last groups]" by simp
  then have "concat groups = concat (butlast groups) @ last groups"
    by (metis concat.simps(1) concat.simps(2) concat_append append_Nil2)
  with False show ?thesis by (simp add: store_row_def)
qed


lemma ref_Insert_all_or_nothing:
  "(if fst (ref_Insert target row t s)
    then stored_rows (snd (ref_Insert target row t s)) target = stored_rows s target @ [row]
    else snd (ref_Insert target row t s) = s)"
proof (cases target)
  case None
  then show ?thesis by (simp add: ref_Insert_def)
next
  case (Some table)
  show ?thesis
  proof (cases "table \<in> set (map (\<lambda>e. fst (snd e)) (tables s)) \<and>
                length row = length (GetSchema table)")
    case False
    then have "ref_Insert target row t s = (False, s)"
      unfolding ref_Insert_def Some by (simp only: option.case simp_thms if_False)
    then show ?thesis by simp
  next
    case True
    define f where "f = (\<lambda>e :: (string \<times> string) \<times> DataTable \<times> int Tuple list list.
                   if fst (snd e) = table
                   then (fst e, table, store_row (tuples_per_tile_group s) row (snd (snd e)))
                   else e)"
    have ins: "ref_Insert target row t s = (True, s\<lparr>tables := map f (tables s)\<rparr>)"
      using True unfolding ref_Insert_def Some f_def by (simp only: option.case simp_thms if_True)
    have keep: "\<And>e. fst (snd (f e)) = fst (snd e)" by (simp add: f_def)
    from True have mem: "table \<in> set (map (\<lambda>e. fst (snd e)) (tables s))"
      by (rule conjunct1)
    from find_handle_Some [OF mem] obtain e where
      e: "find (\<lambda>e. fst (snd e) = table) (tables s) = Some e" "fst (snd e) = table"
      by (elim exE conjE)
    have "find (\<lambda>e. fst (snd e) = table) (map f (tables s)) = Some (f e)"
      by (simp only: find_map_handle [of f, OF keep] e(1) option.map)
    moreover have "snd (snd (f e)) = store_row (tuples_per_tile_group s) row (snd (snd e))"
      using e by (simp add: f_def)
    ultimately have "tile_groups (s\<lparr>tables := map f (tables s)\<rparr>) target =
                 store_row (tuples_per_tile_group s) row (tile_groups s target)"
      using Some e by (simp add: tile_groups_def)
    then show ?thesis
      using ins by (simp add: stored_rows_def concat_store_row)
  qed
qed

text \<open>
  Claim C9. With a null transaction \<^verbatim>\<open>InsertSampleTuple\<close> returns false at once, makes no
  call and changes nothing. With a transaction it runs the insert executor once, on the
  given table and row under that transaction, and returns the executor's flag; it adds
  no effect of its own. On the reference engine the row is then stored whole when the
  flag is true, and the engine is unchanged when it is false.
\<close>

theorem InsertSampleTuple_all_or_nothing:
  "InsertSampleTuple K samples_table tuple None w = (False, w) \<and>
   InsertSampleTuple K samples_table tuple (Some t) w =
     (fst (executor_Insert K samples_table tuple t (engine w)),
      \<lparr>calls = calls w @ [Call_InsertExecutor samples_table tuple t
                            (fst (executor_Insert K samples_table tuple t (engine w)))],
       engine = snd (executor_Insert K samples_table tuple t (engine w))\<rparr>) \<and>
   (if fst (InsertSampleTuple (ref_collaborators n) target row (Some t) rw)
    then stored_rows (engine (snd (InsertSampleTuple (ref_collaborators n) target row (Some t) rw)))
           target = stored_rows (engine rw) target @ [row]
    else engine (snd (InsertSampleTuple (ref_collaborators n) target row (Some t) rw)) = engine rw)"
proof -
  have null: "InsertSampleTuple K samples_table tuple None w = (False, w)"
    by (simp add: InsertSampleTuple_def)
  have run: "\<And>K samples_table tuple w. InsertSampleTuple K samples_table tuple (Some t) w =
     (fst (executor_Insert K samples_table tuple t (engine w)),
      \<lparr>calls = calls w @ [Call_InsertExecutor samples_table tuple t
                            (fst (executor_Insert K samples_table tuple t (engine w)))],
       engine = snd (executor_Insert K samples_table tuple t (engine w))\<rparr>)"
    by (simp add: InsertSampleTuple_def InsertExecutor_Execute_def case_prod_beta)
  have ex: "executor_Insert (ref_collaborators n) = ref_Insert"
    by (simp add: ref_collaborators_def)
  have ref: "(if fst (InsertSampleTuple (ref_collaborators n) target row (Some t) rw)
    then stored_rows (engine (snd (InsertSampleTuple (ref_collaborators n) target row (Some t) rw)))
           target = stored_rows (engine rw) target @ [row]
    else engine (snd (InsertSampleTuple (ref_collaborators n) target row (Some t) rw)) = engine rw)"
    using ref_Insert_all_or_nothing [of target row t "engine rw"]
    unfolding run ex by (simp only: fst_conv snd_conv world.simps)
  from null run [of K samples_table tuple w] ref show ?thesis by blast
qed

text \<open>
  A run of claim C9 on the samples table of the refreshed user table: the row \<open>[40]\<close> is
  stored after the three sampled rows, and a row with two values for the one column is
  refused with the engine unchanged.
\<close>

theorem InsertSampleTuple_all_or_nothing_witness:
  "InsertSampleTuple (ref_collaborators 3) (Some samples_table_1_2) [40] None sampled_world =
     (False, sampled_world) \<and>
   fst (InsertSampleTuple (ref_collaborators 3) (Some samples_table_1_2) [40] (Some 7)
          sampled_world) \<and>
   stored_rows
     (engine (snd (InsertSampleTuple (ref_collaborators 3) (Some samples_table_1_2) [40] (Some 7)
                     sampled_world)))
     (Some samples_table_1_2) = [[10], [20], [30], [40]] \<and>
   \<not> fst (InsertSampleTuple (ref_collaborators 3) (Some samples_table_1_2) [40, 41] (Some 7)
            sampled_world) \<and>
   engine (snd (InsertSampleTuple (ref_collaborators 3) (Some samples_table_1_2) [40, 41] (Some 7)
                  sampled_world)) = engine sampled_world"
proof -
  have stored: "stored_rows (engine sampled_world) (Some samples_table_1_2) = [[10], [20], [30]]"
    unfolding sampled_world_eq by code_simp
  have accepted:
    "fst (InsertSampleTuple (ref_collaborators 3) (Some samples_table_1_2) [40] (Some 7)
            sampled_world)"
    unfolding sampled_world_eq by code_simp
  have refused:
    "\<not> fst (InsertSampleTuple (ref_collaborators 3) (Some samples_table_1_2) [40, 41] (Some 7)
              sampled_world)"
    unfolding sampled_world_eq by code_simp
  show ?thesis
    using stored accepted refused
      InsertSampleTuple_all_or_nothing
        [where K = "ref_collaborators 3" and samples_table = "Some samples_table_1_2"
           and tuple = "[40]" and w = sampled_world and t = 7 and n = 3
           and target = "Some samples_table_1_2" and row = "[40]" and rw = sampled_world]
      InsertSampleTuple_all_or_nothing
        [where K = "ref_collaborators 3" and samples_table = "Some samples_table_1_2"
           and tuple = "[40]" and w = sampled_world and t = 7 and n = 3
           and target = "Some samples_table_1_2" and row = "[40, 41]" and rw = sampled_world]
    by simp
qed

subsection \<open>Reading the samples back\<close>

lemma GetColumnSamples_result:
  "fst (GetColumnSamples K database_id table_id column_id column_samples w) =
     (case scanned_batches K database_id table_id column_id w of
        None \<Rightarrow> Inl NullPointerDereference
      | Some tiles \<Rightarrow>
          (if tiles = [] then Inr column_samples
           else Inr (push_tile_values (tiles ! 0) column_samples)))"
  by (simp add: GetColumnSamples_def scanned_batches_def Let_def case_prod_beta
      split: option.splits)

text \<open>
  Claim C7. If the scan of the samples table yields zero result batches,
  \<^verbatim>\<open>GetColumnSamples\<close> returns normally and the accumulator is as it was.
\<close>

theorem GetColumnSamples_no_batches:
  "scanned_batches K database_id table_id column_id w = Some [] \<Longrightarrow>
   fst (GetColumnSamples K database_id table_id column_id column_samples w) = Inr column_samples"
  by (simp add: GetColumnSamples_result)

text \<open>
  A run of claim C7: after a refresh that sampled no row, the samples table exists and is
  empty, its scan yields no batch, and an accumulator holding \<open>[7]\<close> still holds \<open>[7]\<close>.
\<close>

theorem GetColumnSamples_no_batches_witness:
  "scanned_batches (ref_collaborators 0) 1 2 0 empty_sampled_world = Some [] \<and>
   fst (GetColumnSamples (ref_collaborators 0) 1 2 0 [7] empty_sampled_world) = Inr [7]"
proof -
  have "map_option length (scanned_batches (ref_collaborators 0) 1 2 0 empty_sampled_world) =
          Some 0"
    by code_simp
  then have none: "scanned_batches (ref_collaborators 0) 1 2 0 empty_sampled_world = Some []"
    by (cases "scanned_batches (ref_collaborators 0) 1 2 0 empty_sampled_world") auto
  show ?thesis
    using none GetColumnSamples_no_batches [OF none, of "[7]"] by simp
qed

text \<open>What \<^verbatim>\<open>GetColumnSamples\<close> appends when the scan yields batches: the values of the
  first batch.\<close>

lemma GetColumnSamples_first_batch:
  "scanned_batches K database_id table_id column_id w = Some (tile # tiles) \<Longrightarrow>
   fst (GetColumnSamples K database_id table_id column_id column_samples w) =
     Inr (column_samples @ column_values_of_batches [tile])"
  by (simp add: GetColumnSamples_result push_tile_values_eq column_values_of_batches_def)

text \<open>
  Claim C1 on a samples table of two batches. The refresh stored the rows \<open>[10]\<close>, \<open>[20]\<close>
  and \<open>[30]\<close> in tile groups of two rows, so the scan yields a batch of two rows and a batch
  of one. The claim has \<^verbatim>\<open>GetColumnSamples\<close> append 10, 20 and 30 to the empty accumulator;
  the source reads the first batch only and appends 10 and 20.
\<close>

theorem GetColumnSamples_reads_first_batch_only:
  "fst (GetColumnSamples (ref_collaborators 3) 1 2 0 [] sampled_world) = Inr [10, 20] \<and>
   GetColumnSamples_spec (ref_collaborators 3) 1 2 0 [] sampled_world = Inr [10, 20, 30]"
  unfolding sampled_world_eq by code_simp

text \<open>When the catalog has no samples table of the name, \<^verbatim>\<open>GetTupleSamples\<close> dereferences
  the null handle.\<close>

lemma GetTupleSamples_missing_table:
  "fst (catalog_GetTableWithName K SAMPLES_DB_NAME (GenerateSamplesTableName database_id table_id)
          (fst (txn_BeginTransaction K (engine w))) (snd (txn_BeginTransaction K (engine w)))) = None
   \<Longrightarrow> fst (GetTupleSamples K database_id table_id w) = Inl NullPointerDereference"
  by (simp add: GetTupleSamples_def BeginTransaction_def GetTableWithName_def Let_def
      case_prod_beta)

text \<open>
  Claim C3 after a delete. \<^verbatim>\<open>DeleteSamplesTable\<close> dropped the samples table of the user
  table with \<open>SUCCESS\<close>. The claim has the next \<^verbatim>\<open>GetTupleSamples\<close> for the same identifiers
  return an empty or absent result; the source asks the null handle for its schema.
\<close>

theorem GetTupleSamples_after_delete_dereferences_null:
  "fst (DeleteSamplesTable (ref_collaborators 3) 1 2 None sampled_world) = SUCCESS \<and>
   fst (GetTupleSamples (ref_collaborators 3) 1 2 after_delete_world) =
     Inl NullPointerDereference"
proof -
  have dropped: "fst (DeleteSamplesTable (ref_collaborators 3) 1 2 None sampled_world) = SUCCESS"
    unfolding sampled_world_eq by code_simp
  have missing:
    "fst (catalog_GetTableWithName (ref_collaborators 3) SAMPLES_DB_NAME
            (GenerateSamplesTableName 1 2)
            (fst (txn_BeginTransaction (ref_collaborators 3) (engine after_delete_world)))
            (snd (txn_BeginTransaction (ref_collaborators 3) (engine after_delete_world)))) = None"
    unfolding after_delete_world_def sampled_world_eq by code_simp
  show ?thesis
    using dropped GetTupleSamples_missing_table [OF missing] by simp
qed

end
